theory Spec2Isabelle
  imports Main "HOL-Library.Word"
begin

section \<open>The Gemini TTS engine of google\_tts (openaitts\_engine.py)\<close>

text \<open>
  The module holds one class, \<open>OpenAITTSEngine\<close>, whose method \<open>get_tts\<close> sends a prompt
  to the vendor client, checks the shape of the response, decodes the base64 payload and
  retries once on failure. The vendor client, the base64 decoder of the standard library,
  the logger and \<open>time.sleep\<close> are outside the module: the client and the decoder are
  parameters of the model, and every call, log record and sleep is an event appended to a
  trace that the functions pass along.
\<close>

subsection \<open>Python values and exceptions\<close>

text \<open>
  The response of the vendor client is a Python object that the code walks with
  \<open>getattr\<close>, attribute access, \<open>len\<close>, subscription and truth tests. The values
  modelled are \<open>None\<close>, strings, lists and plain objects carrying named attributes
  (always true, without length or subscription).
\<close>

datatype pyval =
    PNone
  | PStr string
  | PList "pyval list"
  | PObj "(string \<times> pyval) list"

text \<open>
  Exceptions. \<open>HomeAssistantError\<close> carries its message and its cause (the
  \<open>from exc\<close> of the raise statement). \<open>OtherException\<close> is any other subclass of
  \<open>Exception\<close> (what the vendor client or the decoder raise); \<open>NonException\<close> is a
  \<open>BaseException\<close> outside \<open>Exception\<close>, such as \<open>KeyboardInterrupt\<close>, which
  \<open>except Exception\<close> does not catch.
\<close>

datatype exn =
    AttributeError
  | TypeError
  | IndexError
  | HomeAssistantError string "exn option"
  | OtherException string
  | NonException string

fun is_Exception :: "exn \<Rightarrow> bool" where
  "is_Exception (NonException n) = False"
| "is_Exception e = True"

text \<open>Truth value of a Python value, as \<open>if x\<close>, \<open>not x\<close> and \<open>and\<close> test it.\<close>

fun truthy :: "pyval \<Rightarrow> bool" where
  "truthy PNone = False"
| "truthy (PStr s) = (s \<noteq> [])"
| "truthy (PList xs) = (xs \<noteq> [])"
| "truthy (PObj fs) = True"

text \<open>\<open>getattr(x, name, None)\<close>: the attribute, or \<open>None\<close> where there is none.\<close>

fun getattr_default :: "pyval \<Rightarrow> string \<Rightarrow> pyval" where
  "getattr_default (PObj fs) name = (case map_of fs name of Some v \<Rightarrow> v | None \<Rightarrow> PNone)"
| "getattr_default x name = PNone"

text \<open>\<open>x.name\<close>: raises AttributeError where there is no such attribute.\<close>

fun getattr :: "pyval \<Rightarrow> string \<Rightarrow> exn + pyval" where
  "getattr (PObj fs) name = (case map_of fs name of Some v \<Rightarrow> Inr v | None \<Rightarrow> Inl AttributeError)"
| "getattr x name = Inl AttributeError"

text \<open>\<open>len(x)\<close>.\<close>

fun len :: "pyval \<Rightarrow> exn + nat" where
  "len (PStr s) = Inr (length s)"
| "len (PList xs) = Inr (length xs)"
| "len x = Inl TypeError"

text \<open>\<open>x[0]\<close>.\<close>

fun item0 :: "pyval \<Rightarrow> exn + pyval" where
  "item0 (PList []) = Inl IndexError"
| "item0 (PList (x # xs)) = Inr x"
| "item0 (PStr []) = Inl IndexError"
| "item0 (PStr (c # cs)) = Inr (PStr [c])"
| "item0 x = Inl TypeError"

subsection \<open>Requests, events and the engine\<close>

type_synonym byte = "8 word"

datatype AudioResponse = AudioResponse (content: "byte list")

record PrebuiltVoiceConfig =
  voice_name :: string

record VoiceConfig =
  prebuilt_voice_config :: PrebuiltVoiceConfig

record SpeechConfig =
  voice_config :: VoiceConfig

record GenerateContentConfig =
  response_modalities :: "string list"
  speech_config :: SpeechConfig

text \<open>The keyword arguments of one \<open>generate_content\<close> call.\<close>

record request =
  kw_model :: string
  kw_contents :: string
  kw_config :: GenerateContentConfig

datatype level = DEBUG | WARNING | ERROR

text \<open>
  A float is never inspected by the module, only stored and logged, so its type is the
  parameter \<open>'f\<close>.
\<close>

datatype 'f log_arg = ArgInt nat | ArgExn exn | ArgFloat 'f

datatype 'f event =
    Call request
  | Sleep nat
  | Log level string "'f log_arg list"

fun requests :: "'f event list \<Rightarrow> request list" where
  "requests [] = []"
| "requests (Call q # evs) = q # requests evs"
| "requests (ev # evs) = requests evs"

fun sleeps :: "'f event list \<Rightarrow> nat list" where
  "sleeps [] = []"
| "sleeps (Sleep d # evs) = d # sleeps evs"
| "sleeps (ev # evs) = sleeps evs"

text \<open>
  The vendor client: the outcome of its \<open>n\<close>-th \<open>generate_content\<close> call (counting
  from 0 over the whole trace) on a request is an exception or a response object.
\<close>

type_synonym client = "nat \<Rightarrow> request \<Rightarrow> exn + pyval"

record 'f engine =
  self_api_key :: string
  self_voice :: string
  self_model :: string
  self_speed :: 'f
  self_url :: "string option"
  self_client :: client

subsection \<open>The constructor\<close>

definition OpenAITTSEngine_init ::
  "(string \<Rightarrow> exn + client) \<Rightarrow> string \<Rightarrow> string \<Rightarrow> string \<Rightarrow> 'f \<Rightarrow> string option \<Rightarrow>
   'f event list \<Rightarrow> (exn + 'f engine) \<times> 'f event list" where
  "OpenAITTSEngine_init genai_Client api_key voice model speed url tr =
     (case genai_Client api_key of
        Inr c \<Rightarrow>
          (Inr \<lparr>self_api_key = api_key, self_voice = voice, self_model = model,
                self_speed = speed, self_url = url, self_client = c\<rparr>, tr)
      | Inl e \<Rightarrow>
          if is_Exception e
          then (Inl (HomeAssistantError
                  ''Invalid Gemini API key or client initialization failed'' (Some e)),
                tr @ [Log ERROR ''Failed to initialize Google Gemini client'' []])
          else (Inl e, tr))"

subsection \<open>get\_tts\<close>

text \<open>
  Lines 116 to 130: from the response to the audio bytes. \<open>b64decode\<close> is
  \<open>base64.b64decode\<close> of the standard library. Lines 116 to 120 first: the
  candidate, or \<open>None\<close>.
\<close>

definition first_candidate :: "pyval \<Rightarrow> exn + pyval" where
  "first_candidate response =
     (if truthy (getattr_default response ''candidates'')
      then (case getattr response ''candidates'' of
              Inl e \<Rightarrow> Inl e
            | Inr cs \<Rightarrow>
                (case len cs of
                   Inl e \<Rightarrow> Inl e
                 | Inr n \<Rightarrow>
                     if n > 0
                     then (case getattr response ''candidates'' of
                             Inl e \<Rightarrow> Inl e
                           | Inr cs' \<Rightarrow> item0 cs')
                     else Inr PNone))
      else Inr PNone)"

text \<open>The condition of line 121: \<open>not candidate or not getattr(candidate.content, "parts", None)\<close>.\<close>

definition no_audio :: "pyval \<Rightarrow> exn + bool" where
  "no_audio candidate =
     (if \<not> truthy candidate then Inr True
      else (case getattr candidate ''content'' of
              Inl e \<Rightarrow> Inl e
            | Inr c \<Rightarrow> Inr (\<not> truthy (getattr_default c ''parts''))))"

text \<open>Line 124: \<open>candidate.content.parts\<close>.\<close>

definition candidate_parts :: "pyval \<Rightarrow> exn + pyval" where
  "candidate_parts candidate =
     (case getattr candidate ''content'' of
        Inl e \<Rightarrow> Inl e
      | Inr c \<Rightarrow> getattr c ''parts'')"

text \<open>The condition of line 125: \<open>not parts or not getattr(parts[0], "inlineData", None)\<close>.\<close>

definition malformed :: "pyval \<Rightarrow> exn + bool" where
  "malformed parts =
     (if \<not> truthy parts then Inr True
      else (case item0 parts of
              Inl e \<Rightarrow> Inl e
            | Inr p \<Rightarrow> Inr (\<not> truthy (getattr_default p ''inlineData''))))"

text \<open>Line 128: \<open>parts[0].inlineData.data\<close>.\<close>

definition inline_data_of :: "pyval \<Rightarrow> exn + pyval" where
  "inline_data_of parts =
     (case item0 parts of
        Inl e \<Rightarrow> Inl e
      | Inr p \<Rightarrow>
          (case getattr p ''inlineData'' of
             Inl e \<Rightarrow> Inl e
           | Inr b \<Rightarrow> getattr b ''data''))"

definition read_response :: "(pyval \<Rightarrow> exn + byte list) \<Rightarrow> pyval \<Rightarrow> exn + AudioResponse" where
  "read_response b64decode response =
     (case first_candidate response of
        Inl e \<Rightarrow> Inl e
      | Inr candidate \<Rightarrow>
          (case no_audio candidate of
             Inl e \<Rightarrow> Inl e
           | Inr True \<Rightarrow> Inl (HomeAssistantError ''No audio returned from Gemini TTS'' None)
           | Inr False \<Rightarrow>
               (case candidate_parts candidate of
                  Inl e \<Rightarrow> Inl e
                | Inr parts \<Rightarrow>
                    (case malformed parts of
                       Inl e \<Rightarrow> Inl e
                     | Inr True \<Rightarrow>
                         Inl (HomeAssistantError ''Malformed response from Gemini TTS'' None)
                     | Inr False \<Rightarrow>
                         (case inline_data_of parts of
                            Inl e \<Rightarrow> Inl e
                          | Inr b64_data \<Rightarrow>
                              (case b64decode b64_data of
                                 Inl e \<Rightarrow> Inl e
                               | Inr audio_bytes \<Rightarrow> Inr (AudioResponse audio_bytes)))))))"

text \<open>
  The body of the \<open>try\<close> block (lines 107 to 130): the remote call, recorded in the
  trace, then the reading of its response.
\<close>

definition try_block ::
  "(pyval \<Rightarrow> exn + byte list) \<Rightarrow> 'f engine \<Rightarrow> string \<Rightarrow> GenerateContentConfig \<Rightarrow>
   'f event list \<Rightarrow> (exn + AudioResponse) \<times> 'f event list" where
  "try_block b64decode self prompt generate_config tr =
     (let q = \<lparr>kw_model = self_model self, kw_contents = prompt, kw_config = generate_config\<rparr>
      in (case self_client self (length (requests tr)) q of
            Inl e \<Rightarrow> Inl e
          | Inr response \<Rightarrow> read_response b64decode response,
          tr @ [Call q]))"

text \<open>The three log records of \<open>get_tts\<close> (\<open>_LOGGER.exception\<close> logs at level ERROR).\<close>

definition log_attempt_failed :: "nat \<Rightarrow> exn \<Rightarrow> 'f event" where
  "log_attempt_failed k exc =
     Log ERROR ''Error in Gemini TTS get_tts on attempt %d: %s'' [ArgInt k, ArgExn exc]"

definition log_retrying :: "nat \<Rightarrow> 'f event" where
  "log_retrying k = Log DEBUG ''Retrying Gemini TTS call (attempt %d)'' [ArgInt k]"

definition log_speed_ignored :: "'f \<Rightarrow> 'f event" where
  "log_speed_ignored speed =
     Log WARNING
       ''Gemini TTS does not support a numeric 'speed' parameter; ignoring speed=%s''
       [ArgFloat speed]"

text \<open>
  The \<open>while True\<close> loop (lines 105 to 144) with its handler. An exception that is not
  an \<open>Exception\<close> passes through the handler.
\<close>

function retry_loop ::
  "(pyval \<Rightarrow> exn + byte list) \<Rightarrow> 'f engine \<Rightarrow> string \<Rightarrow> GenerateContentConfig \<Rightarrow> nat \<Rightarrow> nat \<Rightarrow>
   'f event list \<Rightarrow> (exn + AudioResponse) \<times> 'f engine \<times> 'f event list" where
  "retry_loop b64decode self prompt generate_config max_retries attempt tr =
     (case try_block b64decode self prompt generate_config tr of
        (Inr audio, tr1) \<Rightarrow> (Inr audio, self, tr1)
      | (Inl exc, tr1) \<Rightarrow>
          if \<not> is_Exception exc then (Inl exc, self, tr1)
          else
            (let tr2 = tr1 @ [log_attempt_failed (attempt + 1) exc]
             in if attempt < max_retries
                then retry_loop b64decode self prompt generate_config max_retries (attempt + 1)
                       (tr2 @ [Sleep 1, log_retrying (attempt + 1 + 1)])
                else (Inl (HomeAssistantError
                        ''Failed to fetch TTS audio from Gemini after retries'' (Some exc)),
                      self, tr2)))"
  by pat_completeness auto
termination
  by (relation "measure (\<lambda>(b, s, p, c, m, a, t). m - a)") auto

declare retry_loop.simps [simp del]

text \<open>Lines 75 and 76: the voice of the call.\<close>

definition resolve_voice :: "'f engine \<Rightarrow> string option \<Rightarrow> string" where
  "resolve_voice self voice = (case voice of None \<Rightarrow> self_voice self | Some v \<Rightarrow> v)"

text \<open>Lines 80 to 83: the prompt; \<open>if instructions\<close> is false for \<open>None\<close> and for the empty string.\<close>

definition build_prompt :: "string option \<Rightarrow> string \<Rightarrow> string" where
  "build_prompt instructions text =
     (case instructions of
        None \<Rightarrow> text
      | Some i \<Rightarrow> if i \<noteq> [] then i @ [CHR 0x0A] @ text else text)"

text \<open>Lines 86 to 89: the warning about a speed.\<close>

definition warn_speed :: "'f option \<Rightarrow> 'f event list \<Rightarrow> 'f event list" where
  "warn_speed speed tr =
     (case speed of None \<Rightarrow> tr | Some s \<Rightarrow> tr @ [log_speed_ignored s])"

text \<open>Lines 92 to 100: the configuration of the request.\<close>

definition build_config :: "string \<Rightarrow> GenerateContentConfig" where
  "build_config voice =
     (let speech_config = \<lparr>voice_config = \<lparr>prebuilt_voice_config = \<lparr>voice_name = voice\<rparr>\<rparr>\<rparr>
      in \<lparr>response_modalities = [''AUDIO''], speech_config = speech_config\<rparr>)"

definition get_tts ::
  "(pyval \<Rightarrow> exn + byte list) \<Rightarrow> 'f engine \<Rightarrow> string \<Rightarrow> 'f option \<Rightarrow> string option \<Rightarrow>
   string option \<Rightarrow> 'f event list \<Rightarrow> (exn + AudioResponse) \<times> 'f engine \<times> 'f event list" where
  "get_tts b64decode self text speed instructions voice tr =
     (let voice1 = resolve_voice self voice;
          prompt = build_prompt instructions text;
          tr1 = warn_speed speed tr;
          generate_config = build_config voice1;
          max_retries = 1;
          attempt = 0
      in retry_loop b64decode self prompt generate_config max_retries attempt tr1)"

subsection \<open>get\_supported\_langs\<close>

definition get_supported_langs :: "'f event list \<Rightarrow> string list \<times> 'f event list" where
  "get_supported_langs tr =
     ([''ar-EG'', ''de-DE'', ''en-US'', ''es-US'', ''fr-FR'', ''hi-IN'',
       ''id-ID'', ''it-IT'', ''ja-JP'', ''ko-KR'', ''nl-NL'', ''pl-PL'',
       ''pt-BR'', ''ru-RU'', ''th-TH'', ''tr-TR'', ''vi-VN'', ''ro-RO'',
       ''uk-UA'', ''bn-BD'', ''en-IN'', ''mr-IN'', ''ta-IN'', ''te-IN''], tr)"

subsection \<open>Notions used in the statements\<close>

text \<open>The three components of what a method returns: result, engine, trace.\<close>

definition result_of :: "'r \<times> 'e \<times> 't \<Rightarrow> 'r" where
  "result_of x = fst x"

definition engine_of :: "'r \<times> 'e \<times> 't \<Rightarrow> 'e" where
  "engine_of x = fst (snd x)"

definition trace_of :: "'r \<times> 'e \<times> 't \<Rightarrow> 't" where
  "trace_of x = snd (snd x)"

text \<open>
  The outcome of one attempt, the \<open>n\<close>-th call of the client: what the \<open>try\<close> block
  returns or raises, whether in the remote call, in the checks of the response or in the
  decoding.
\<close>

definition attempt_outcome ::
  "(pyval \<Rightarrow> exn + byte list) \<Rightarrow> client \<Rightarrow> nat \<Rightarrow> request \<Rightarrow> exn + AudioResponse" where
  "attempt_outcome b64decode c n q =
     (case c n q of Inl e \<Rightarrow> Inl e | Inr response \<Rightarrow> read_response b64decode response)"

text \<open>The arguments of \<open>generate_content\<close> (lines 108 to 112) for the arguments of \<open>get_tts\<close>.\<close>

definition sent_request ::
  "'f engine \<Rightarrow> string \<Rightarrow> string option \<Rightarrow> string option \<Rightarrow> request" where
  "sent_request self text instructions voice =
     \<lparr>kw_model = self_model self, kw_contents = build_prompt instructions text,
      kw_config = build_config (resolve_voice self voice)\<rparr>"

text \<open>
  What \<open>get_tts\<close> returns once the first attempt has raised \<open>e1\<close> and been caught, from
  the outcome \<open>o2\<close> of the second attempt.
\<close>

definition after_retry ::
  "'f engine \<Rightarrow> request \<Rightarrow> exn \<Rightarrow> exn + AudioResponse \<Rightarrow> 'f event list \<Rightarrow>
   (exn + AudioResponse) \<times> 'f engine \<times> 'f event list" where
  "after_retry self q e1 o2 tr =
     (let tr2 = tr @ [Call q, log_attempt_failed 1 e1, Sleep 1, log_retrying 2, Call q]
      in case o2 of
           Inr a \<Rightarrow> (Inr a, self, tr2)
         | Inl e2 \<Rightarrow>
             if is_Exception e2
             then (Inl (HomeAssistantError
                     ''Failed to fetch TTS audio from Gemini after retries'' (Some e2)),
                   self, tr2 @ [log_attempt_failed 2 e2])
             else (Inl e2, self, tr2))"




text \<open>
  A response of valid shape: first candidate, content, first part, inline data, and
  there the value \<open>d\<close> of the attribute \<open>data\<close>.
\<close>

inductive inline_audio :: "pyval \<Rightarrow> pyval \<Rightarrow> bool" where
  "map_of response ''candidates'' = Some (PList (PObj candidate # cs))
   \<Longrightarrow> map_of candidate ''content'' = Some (PObj c)
   \<Longrightarrow> map_of c ''parts'' = Some (PList (PObj p # ps))
   \<Longrightarrow> map_of p ''inlineData'' = Some (PObj b)
   \<Longrightarrow> map_of b ''data'' = Some d
   \<Longrightarrow> inline_audio (PObj response) d"


text \<open>The voice that a request names.\<close>

definition request_voice :: "request \<Rightarrow> string" where
  "request_voice q =
     voice_name (prebuilt_voice_config (voice_config (speech_config (kw_config q))))"

text \<open>A language tag made of a language and a region: two small letters, a hyphen, two capitals.\<close>

definition small_letter :: "char \<Rightarrow> bool" where
  "small_letter c = (97 \<le> (of_char c :: nat) \<and> (of_char c :: nat) \<le> 122)"

definition capital_letter :: "char \<Rightarrow> bool" where
  "capital_letter c = (65 \<le> (of_char c :: nat) \<and> (of_char c :: nat) \<le> 90)"

fun language_region_tag :: "string \<Rightarrow> bool" where
  "language_region_tag [a, b, h, c, d] =
     (small_letter a \<and> small_letter b \<and> h = CHR ''-'' \<and> capital_letter c \<and> capital_letter d)"
| "language_region_tag s = False"

subsection \<open>A sample decoder, client and engine\<close>

text \<open>
  The theorems hold for every decoder and every client. The examples run them on a
  decoder of padded base64 text (RFC 4648, section 4), on clients that answer, fail once,
  fail always, fail and are then interrupted, or answer without candidates, and on an
  engine whose speed is the float 1.0, given by its IEEE 754 bits.
\<close>

definition b64_index :: "char \<Rightarrow> nat option" where
  "b64_index c =
     (let n = (of_char c :: nat)
      in if 65 \<le> n \<and> n \<le> 90 then Some (n - 65)
         else if 97 \<le> n \<and> n \<le> 122 then Some (n - 71)
         else if 48 \<le> n \<and> n \<le> 57 then Some (n + 4)
         else if n = 43 then Some 62
         else if n = 47 then Some 63
         else None)"

fun b64_quads :: "string \<Rightarrow> byte list option" where
  "b64_quads [] = Some []"
| "b64_quads (a # b # c # d # rest) =
     (case (b64_index a, b64_index b) of
        (Some i, Some j) \<Rightarrow>
          (if c = CHR ''='' \<and> d = CHR ''='' \<and> rest = []
           then Some [of_nat (i * 4 + j div 16)]
           else (case b64_index c of
                   None \<Rightarrow> None
                 | Some k \<Rightarrow>
                     (if d = CHR ''='' \<and> rest = []
                      then Some [of_nat (i * 4 + j div 16), of_nat (j mod 16 * 16 + k div 4)]
                      else (case (b64_index d, b64_quads rest) of
                              (Some l, Some bs) \<Rightarrow>
                                Some (of_nat (i * 4 + j div 16)
                                      # of_nat (j mod 16 * 16 + k div 4)
                                      # of_nat (k mod 4 * 64 + l) # bs)
                            | _ \<Rightarrow> None))))
      | _ \<Rightarrow> None)"
| "b64_quads s = None"

definition sample_b64decode :: "pyval \<Rightarrow> exn + byte list" where
  "sample_b64decode v =
     (case v of
        PStr s \<Rightarrow> (case b64_quads s of
                     Some bs \<Rightarrow> Inr bs
                   | None \<Rightarrow> Inl (OtherException ''binascii.Error''))
      | _ \<Rightarrow> Inl TypeError)"

text \<open>A response carrying the base64 text of the four bytes \<open>RIFF\<close>, and one without candidates.\<close>

definition sample_response :: pyval where
  "sample_response =
     PObj [(''candidates'',
       PList [PObj [(''content'',
         PObj [(''parts'',
           PList [PObj [(''inlineData'', PObj [(''data'', PStr ''UklGRg=='')])]])])]])]"


definition client_ok :: client where
  "client_ok = (\<lambda>n q. Inr sample_response)"

definition client_flaky :: client where
  "client_flaky = (\<lambda>n q. if n = 0 then Inl (OtherException ''ServerError'') else Inr sample_response)"

definition client_down :: client where
  "client_down = (\<lambda>n q. Inl (OtherException ''ServerError''))"

definition client_interrupted :: client where
  "client_interrupted =
     (\<lambda>n q. if n = 0 then Inl (OtherException ''ServerError'')
            else Inl (NonException ''KeyboardInterrupt''))"


definition sample_genai_Client :: "string \<Rightarrow> exn + client" where
  "sample_genai_Client api_key =
     (if api_key = [] then Inl (OtherException ''ValueError'') else Inr client_ok)"

definition sample_engine :: "client \<Rightarrow> 64 word engine" where
  "sample_engine c =
     \<lparr>self_api_key = ''key'', self_voice = ''Kore'', self_model = ''gemini-2.5-flash-preview-tts'',
      self_speed = 0x3FF0000000000000, self_url = None, self_client = c\<rparr>"

section \<open>Properties\<close>

subsection \<open>The trace and the two attempts\<close>

lemma requests_append: "requests (tr @ tr') = requests tr @ requests tr'"
  by (induction tr rule: requests.induct) simp_all

lemma sleeps_append: "sleeps (tr @ tr') = sleeps tr @ sleeps tr'"
  by (induction tr rule: sleeps.induct) simp_all

lemma requests_warn_speed: "requests (warn_speed speed tr) = requests tr"
  by (cases speed) (simp_all add: warn_speed_def requests_append log_speed_ignored_def)

lemma sleeps_warn_speed: "sleeps (warn_speed speed tr) = sleeps tr"
  by (cases speed) (simp_all add: warn_speed_def sleeps_append log_speed_ignored_def)

lemma try_block_outcome:
  "try_block b64decode self prompt generate_config tr =
     (attempt_outcome b64decode (self_client self) (length (requests tr))
        \<lparr>kw_model = self_model self, kw_contents = prompt, kw_config = generate_config\<rparr>,
      tr @ [Call \<lparr>kw_model = self_model self, kw_contents = prompt,
                  kw_config = generate_config\<rparr>])"
  by (simp add: try_block_def attempt_outcome_def Let_def)

text \<open>
  With \<open>max_retries = 1\<close> the loop runs its body once or twice: \<open>get_tts\<close> is decided
  by the outcomes of the first and, after a caught failure, of the second attempt.
\<close>

lemma get_tts_unfold:
  "get_tts b64decode self text speed instructions voice tr =
     (let q = sent_request self text instructions voice;
          n = length (requests tr);
          tr1 = warn_speed speed tr
      in case attempt_outcome b64decode (self_client self) n q of
           Inr a \<Rightarrow> (Inr a, self, tr1 @ [Call q])
         | Inl e1 \<Rightarrow>
             if is_Exception e1
             then after_retry self q e1
                    (attempt_outcome b64decode (self_client self) (n + 1) q) tr1
             else (Inl e1, self, tr1 @ [Call q]))"
  unfolding get_tts_def Let_def
  apply (subst retry_loop.simps)
  apply (simp add: try_block_outcome sent_request_def requests_warn_speed split: sum.split)
  apply (subst retry_loop.simps)
  apply (simp add: try_block_outcome requests_append requests_warn_speed after_retry_def
      log_attempt_failed_def log_retrying_def split: sum.split)
  done

subsection \<open>Reading a response\<close>

lemma read_response_inline_audio:
  assumes "inline_audio response d"
  shows "read_response b64decode response =
           (case b64decode d of Inl e \<Rightarrow> Inl e | Inr bs \<Rightarrow> Inr (AudioResponse bs))"
  using assms
  by (cases rule: inline_audio.cases)
     (simp add: read_response_def first_candidate_def no_audio_def candidate_parts_def
        malformed_def inline_data_of_def)


subsection \<open>What the trace of a call holds\<close>

lemma get_tts_requests:
  "\<exists>k. (k = 1 \<or> k = 2) \<and>
       requests (trace_of (get_tts b64decode self text speed instructions voice tr)) =
         requests tr @ replicate k (sent_request self text instructions voice)"
proof (cases "attempt_outcome b64decode (self_client self) (length (requests tr))
                (sent_request self text instructions voice)")
  case (Inr a)
  then have "requests (trace_of (get_tts b64decode self text speed instructions voice tr)) =
         requests tr @ replicate 1 (sent_request self text instructions voice)"
    by (simp add: get_tts_unfold Let_def trace_of_def requests_append requests_warn_speed)
  then show ?thesis by blast
next
  case (Inl e1)
  show ?thesis
  proof (cases "is_Exception e1")
    case False
    with Inl have "requests (trace_of (get_tts b64decode self text speed instructions voice tr)) =
         requests tr @ replicate 1 (sent_request self text instructions voice)"
      by (simp add: get_tts_unfold Let_def trace_of_def requests_append requests_warn_speed)
    then show ?thesis by blast
  next
    case True
    with Inl have "requests (trace_of (get_tts b64decode self text speed instructions voice tr)) =
         requests tr @ replicate 2 (sent_request self text instructions voice)"
      by (simp add: get_tts_unfold Let_def trace_of_def requests_append requests_warn_speed
          after_retry_def log_attempt_failed_def log_retrying_def numeral_2_eq_2
          split: sum.split)
    then show ?thesis by blast
  qed
qed

lemma get_tts_speed:
  "get_tts b64decode self text speed instructions voice tr =
     (case get_tts b64decode self text None instructions voice tr of
        (r, e, t) \<Rightarrow> (r, e, warn_speed speed tr @ drop (length tr) t))"
  by (simp add: get_tts_unfold Let_def after_retry_def warn_speed_def split: sum.split)

lemma get_tts_extends:
  "take (length tr)
     (trace_of (get_tts b64decode self text None instructions voice tr)) = tr"
  by (simp add: get_tts_unfold Let_def after_retry_def warn_speed_def trace_of_def split: sum.split)


lemma get_tts_contents:
  "\<exists>k. (k = 1 \<or> k = 2) \<and>
       map kw_contents (requests (trace_of
           (get_tts b64decode self text speed instructions voice tr))) =
         map kw_contents (requests tr) @ replicate k (build_prompt instructions text)"
proof -
  from get_tts_requests [of b64decode self "text" speed instructions voice tr]
  obtain k where k: "k = 1 \<or> k = 2" and
      r: "requests (trace_of (get_tts b64decode self text speed instructions voice tr)) =
         requests tr @ replicate k (sent_request self text instructions voice)"
    by (elim exE conjE)
  have "map kw_contents (requests (trace_of
           (get_tts b64decode self text speed instructions voice tr))) =
         map kw_contents (requests tr) @ replicate k (build_prompt instructions text)"
    unfolding r by (simp add: sent_request_def)
  with k show ?thesis
    by (intro exI [of _ k] conjI)
qed

lemma get_tts_voices:
  "\<exists>k. (k = 1 \<or> k = 2) \<and>
       map request_voice (requests (trace_of
           (get_tts b64decode self text speed instructions voice tr))) =
         map request_voice (requests tr) @ replicate k (resolve_voice self voice)"
proof -
  from get_tts_requests [of b64decode self "text" speed instructions voice tr]
  obtain k where k: "k = 1 \<or> k = 2" and
      r: "requests (trace_of (get_tts b64decode self text speed instructions voice tr)) =
         requests tr @ replicate k (sent_request self text instructions voice)"
    by (elim exE conjE)
  have "map request_voice (requests (trace_of
           (get_tts b64decode self text speed instructions voice tr))) =
         map request_voice (requests tr) @ replicate k (resolve_voice self voice)"
    unfolding r by (simp add: sent_request_def request_voice_def build_config_def)
  with k show ?thesis
    by (intro exI [of _ k] conjI)
qed

lemma get_tts_engine: "engine_of (get_tts b64decode self text speed instructions voice tr) = self"
  by (simp add: get_tts_unfold Let_def after_retry_def engine_of_def split: sum.split)

subsection \<open>The constructor\<close>

lemma init_fields:
  assumes "OpenAITTSEngine_init genai_Client api_key voice0 model0 speed0 url tr0 = (Inr self, tr0')"
  shows "self_api_key self = api_key \<and> self_voice self = voice0 \<and> self_model self = model0
         \<and> self_speed self = speed0 \<and> self_url self = url"
proof (cases "genai_Client api_key")
  case (Inl e)
  with assms show ?thesis
    by (simp add: OpenAITTSEngine_init_def split: if_splits)
next
  case (Inr c)
  with assms have "self = \<lparr>self_api_key = api_key, self_voice = voice0, self_model = model0,
                self_speed = speed0, self_url = url, self_client = c\<rparr>"
    by (simp add: OpenAITTSEngine_init_def)
  then show ?thesis by simp
qed

subsection \<open>The sample client that answers\<close>

lemma sample_ok_first:
  "attempt_outcome sample_b64decode client_ok n q = Inr (AudioResponse [0x52, 0x49, 0x46, 0x46])"
  by (simp add: attempt_outcome_def client_ok_def sample_response_def read_response_def
      first_candidate_def no_audio_def candidate_parts_def malformed_def inline_data_of_def
      sample_b64decode_def b64_index_def)

lemma sample_ok_requests:
  "requests (trace_of (get_tts sample_b64decode (sample_engine client_ok) text speed
      instructions voice [])) = [sent_request (sample_engine client_ok) text instructions voice]"
proof -
  have c: "self_client (sample_engine client_ok) = client_ok"
    by (simp add: sample_engine_def)
  show ?thesis
    by (simp add: get_tts_unfold Let_def c sample_ok_first trace_of_def requests_append
        requests_warn_speed)
qed

lemma sample_init:
  "OpenAITTSEngine_init sample_genai_Client ''key'' ''Kore'' ''gemini-2.5-flash-preview-tts''
     (0x3FF0000000000000 :: 64 word) None [] = (Inr (sample_engine client_ok), [])"
  by (simp add: OpenAITTSEngine_init_def sample_genai_Client_def sample_engine_def)

subsection \<open>The retry\<close>

text \<open>
  Claim C1, as amended. When the attempt (the remote call, or the checks and the decoding
  after it) raises an instance of \<open>Exception\<close> on both attempts, \<open>get_tts\<close> calls
  the client exactly twice and then raises the final error, whose cause is the exception
  of the second attempt. (The handler of line 132 is \<open>except Exception\<close>.)
\<close>

theorem get_tts_two_failures:
  assumes "q = sent_request self text instructions voice"
    and "n = length (requests tr)"
    and "attempt_outcome b64decode (self_client self) n q = Inl e1"
    and "is_Exception e1"
    and "attempt_outcome b64decode (self_client self) (n + 1) q = Inl e2"
    and "is_Exception e2"
  shows "get_tts b64decode self text speed instructions voice tr =
           (Inl (HomeAssistantError
              ''Failed to fetch TTS audio from Gemini after retries'' (Some e2)),
            self,
            warn_speed speed tr @
              [Call q, log_attempt_failed 1 e1, Sleep 1, log_retrying 2, Call q,
               log_attempt_failed 2 e2])
         \<and> requests (trace_of (get_tts b64decode self text speed instructions voice tr)) =
             requests tr @ [q, q]"
  using assms
  by (simp add: get_tts_unfold after_retry_def trace_of_def requests_append Let_def
      requests_warn_speed log_attempt_failed_def log_retrying_def)

theorem get_tts_two_failures_witness:
  "attempt_outcome sample_b64decode client_down 0
      (sent_request (sample_engine client_down) ''Hello'' None None) =
     Inl (OtherException ''ServerError'')
   \<and> is_Exception (OtherException ''ServerError'')
   \<and> attempt_outcome sample_b64decode client_down 1
      (sent_request (sample_engine client_down) ''Hello'' None None) =
     Inl (OtherException ''ServerError'')
   \<and> result_of (get_tts sample_b64decode (sample_engine client_down) ''Hello'' None None None []) =
       Inl (HomeAssistantError ''Failed to fetch TTS audio from Gemini after retries''
              (Some (OtherException ''ServerError'')))
   \<and> length (requests (trace_of
         (get_tts sample_b64decode (sample_engine client_down) ''Hello'' None None None []))) = 2"
  using get_tts_two_failures [of "sent_request (sample_engine client_down) ''Hello'' None None"
      "sample_engine client_down" "''Hello''" None None 0 "[]" sample_b64decode
      "OtherException ''ServerError''" "OtherException ''ServerError''" None]
  by (simp add: attempt_outcome_def client_down_def sample_engine_def result_of_def
      trace_of_def warn_speed_def log_attempt_failed_def log_retrying_def)

text \<open>
  The claim as first stated, for whatever the attempts raise, fails where the second
  attempt raises outside \<open>Exception\<close>: after a server error and then a
  \<open>KeyboardInterrupt\<close> the client has been called twice, and \<open>get_tts\<close> raises the
  \<open>KeyboardInterrupt\<close> itself, not the final error with it as cause.
\<close>

theorem get_tts_interrupted_counterexample:
  "attempt_outcome sample_b64decode client_interrupted 0
      (sent_request (sample_engine client_interrupted) ''Hello'' None None) =
     Inl (OtherException ''ServerError'')
   \<and> attempt_outcome sample_b64decode client_interrupted 1
      (sent_request (sample_engine client_interrupted) ''Hello'' None None) =
     Inl (NonException ''KeyboardInterrupt'')
   \<and> length (requests (trace_of
         (get_tts sample_b64decode (sample_engine client_interrupted) ''Hello''
            None None None []))) = 2
   \<and> result_of (get_tts sample_b64decode (sample_engine client_interrupted) ''Hello''
         None None None []) =
       Inl (NonException ''KeyboardInterrupt'')
   \<and> result_of (get_tts sample_b64decode (sample_engine client_interrupted) ''Hello''
         None None None []) \<noteq>
       Inl (HomeAssistantError ''Failed to fetch TTS audio from Gemini after retries''
              (Some (NonException ''KeyboardInterrupt'')))"
  by (simp add: get_tts_unfold Let_def attempt_outcome_def client_interrupted_def
      sample_engine_def after_retry_def result_of_def trace_of_def warn_speed_def
      requests_append log_attempt_failed_def log_retrying_def)



text \<open>
  Claim C4. When the remote call raises on the first attempt and the second answers with
  a response of valid shape whose data decode, \<open>get_tts\<close> returns the decoded bytes
  of the second response, and the trace between the two calls holds one sleep, of one
  second.
\<close>

theorem get_tts_second_attempt:
  assumes "q = sent_request self text instructions voice"
    and "n = length (requests tr)"
    and "self_client self n q = Inl e1"
    and "is_Exception e1"
    and "self_client self (n + 1) q = Inr response"
    and "inline_audio response b64_data"
    and "b64decode b64_data = Inr audio_bytes"
  shows "get_tts b64decode self text speed instructions voice tr =
           (Inr (AudioResponse audio_bytes), self,
            warn_speed speed tr @
              [Call q, log_attempt_failed 1 e1, Sleep 1, log_retrying 2, Call q])
         \<and> sleeps (trace_of (get_tts b64decode self text speed instructions voice tr)) =
             sleeps tr @ [1]
         \<and> requests (trace_of (get_tts b64decode self text speed instructions voice tr)) =
             requests tr @ [q, q]"
  using assms
  by (simp add: get_tts_unfold after_retry_def trace_of_def requests_append sleeps_append Let_def
      requests_warn_speed sleeps_warn_speed log_attempt_failed_def log_retrying_def
      attempt_outcome_def read_response_inline_audio)


theorem get_tts_second_attempt_witness:
  "self_client (sample_engine client_flaky) 0
      (sent_request (sample_engine client_flaky) ''Hello'' None None) =
     Inl (OtherException ''ServerError'')
   \<and> is_Exception (OtherException ''ServerError'')
   \<and> self_client (sample_engine client_flaky) (0 + 1)
      (sent_request (sample_engine client_flaky) ''Hello'' None None) = Inr sample_response
   \<and> inline_audio sample_response (PStr ''UklGRg=='')
   \<and> sample_b64decode (PStr ''UklGRg=='') = Inr [0x52, 0x49, 0x46, 0x46]
   \<and> result_of (get_tts sample_b64decode (sample_engine client_flaky) ''Hello'' None None None []) =
       Inr (AudioResponse [0x52, 0x49, 0x46, 0x46])
   \<and> sleeps (trace_of
         (get_tts sample_b64decode (sample_engine client_flaky) ''Hello'' None None None [])) = [1]"
proof -
  have shape: "inline_audio sample_response (PStr ''UklGRg=='')"
    by (simp add: sample_response_def inline_audio.simps)
  have dec: "sample_b64decode (PStr ''UklGRg=='') = Inr [0x52, 0x49, 0x46, 0x46]"
    by (simp add: sample_b64decode_def b64_index_def)
  have c0: "self_client (sample_engine client_flaky) 0
      (sent_request (sample_engine client_flaky) ''Hello'' None None) =
     Inl (OtherException ''ServerError'')"
    by (simp add: sample_engine_def client_flaky_def)
  have c1: "self_client (sample_engine client_flaky) (0 + 1)
      (sent_request (sample_engine client_flaky) ''Hello'' None None) = Inr sample_response"
    by (simp add: sample_engine_def client_flaky_def)
  from get_tts_second_attempt [of "sent_request (sample_engine client_flaky) ''Hello'' None None"
      "sample_engine client_flaky" "''Hello''" None None 0 "[]"
      "OtherException ''ServerError''" sample_response "PStr ''UklGRg==''" sample_b64decode
      "[0x52, 0x49, 0x46, 0x46]" None]
    shape dec c0 c1
  show ?thesis
    by (simp add: result_of_def trace_of_def warn_speed_def log_attempt_failed_def
        log_retrying_def)
qed

subsection \<open>The prompt\<close>

text \<open>
  Claim C10. With the empty string as instructions \<open>get_tts\<close> does what it does with
  no instructions: the same result, engine and trace, and every request it sends has the
  text itself as its contents.
\<close>

theorem empty_instructions_as_none:
  "get_tts b64decode self text speed (Some []) voice tr =
     get_tts b64decode self text speed None voice tr
   \<and> (\<exists>k. (k = 1 \<or> k = 2) \<and>
         map kw_contents (requests (trace_of
            (get_tts b64decode self text speed (Some []) voice tr))) =
         map kw_contents (requests tr) @ replicate k text)"
proof -
  have b: "build_prompt (Some []) text = text"
    by (simp add: build_prompt_def)
  have e: "get_tts b64decode self text speed (Some []) voice tr =
     get_tts b64decode self text speed None voice tr"
    by (simp add: get_tts_def build_prompt_def)
  show ?thesis
    using e get_tts_contents [of b64decode self "text" speed "Some []" voice tr]
    unfolding b by (rule conjI)
qed

text \<open>
  Claim C3, as amended. For every text and every instructions string \<open>X\<close> that is not
  empty, the contents of every request that \<open>get_tts\<close> sends is \<open>X\<close>, a newline,
  then the text; with no instructions it is the text itself. (Line 80 tests the truth of
  \<open>instructions\<close>, so the empty string counts as no instructions.)
\<close>

theorem prompt_of_call:
  assumes "X \<noteq> []"
  shows "(\<exists>k. (k = 1 \<or> k = 2) \<and>
            map kw_contents (requests (trace_of
                (get_tts b64decode self text speed (Some X) voice tr))) =
              map kw_contents (requests tr) @ replicate k (X @ [CHR 0x0A] @ text))
       \<and> (\<exists>k. (k = 1 \<or> k = 2) \<and>
            map kw_contents (requests (trace_of
                (get_tts b64decode self text speed None voice tr))) =
              map kw_contents (requests tr) @ replicate k text)"
proof -
  have a: "build_prompt (Some X) text = X @ [CHR 0x0A] @ text"
    using assms by (simp add: build_prompt_def)
  have b: "build_prompt None text = text"
    by (simp add: build_prompt_def)
  show ?thesis
    using get_tts_contents [of b64decode self "text" speed "Some X" voice tr]
      get_tts_contents [of b64decode self "text" speed None voice tr]
    unfolding a b by (rule conjI)
qed

theorem prompt_of_call_witness:
  "''Say cheerfully:'' \<noteq> []
   \<and> map kw_contents (requests (trace_of
          (get_tts sample_b64decode (sample_engine client_ok) ''Hello'' None
             (Some ''Say cheerfully:'') None []))) =
       [''Say cheerfully:'' @ [CHR 0x0A] @ ''Hello'']"
proof -
  have ne: "''Say cheerfully:'' \<noteq> []"
    by simp
  note t = prompt_of_call [of "''Say cheerfully:''" sample_b64decode "sample_engine client_ok"
      "''Hello''" None None "[]", OF ne]
  then obtain k where
    k: "map kw_contents (requests (trace_of
          (get_tts sample_b64decode (sample_engine client_ok) ''Hello'' None
             (Some ''Say cheerfully:'') None []))) =
        map kw_contents (requests ([] :: 64 word event list)) @
          replicate k (''Say cheerfully:'' @ [CHR 0x0A] @ ''Hello'')"
    by (elim conjE exE)
  have one: "length (map kw_contents (requests (trace_of
          (get_tts sample_b64decode (sample_engine client_ok) ''Hello'' None
             (Some ''Say cheerfully:'') None [])))) = 1"
    by (simp add: sample_ok_requests)
  from one have "k = 1"
    unfolding k by simp
  with k ne show ?thesis
    by simp
qed

text \<open>
  The claim as first stated, for every string \<open>X\<close>, fails at the empty string: the
  request carries \<open>Hello\<close>, not a newline followed by \<open>Hello\<close>.
\<close>

theorem prompt_empty_instructions_counterexample:
  "map kw_contents (requests (trace_of
      (get_tts sample_b64decode (sample_engine client_ok) ''Hello'' None (Some '''') None []))) =
     [''Hello'']
   \<and> [''Hello''] \<noteq> ['''' @ [CHR 0x0A] @ ''Hello'']"
  by (simp add: sample_ok_requests sent_request_def build_prompt_def)

subsection \<open>The voice and the engine\<close>

text \<open>
  Claim C5. Every request that \<open>get_tts\<close> sends names one voice: the voice given to
  the call when there is one, and otherwise the default voice of the engine, which an
  engine has from its construction on.
\<close>

theorem voice_of_call:
  assumes "OpenAITTSEngine_init genai_Client api_key default_voice model0 speed0 url tr0 =
             (Inr self, tr0')"
  shows "\<exists>k. (k = 1 \<or> k = 2) \<and>
           map request_voice (requests (trace_of
               (get_tts b64decode self text speed instructions voice tr))) =
             map request_voice (requests tr) @
               replicate k (case voice of None \<Rightarrow> default_voice | Some v \<Rightarrow> v)"
proof -
  have v: "self_voice self = default_voice"
    using init_fields [OF assms] by (elim conjE)
  have a: "resolve_voice self voice = (case voice of None \<Rightarrow> default_voice | Some v \<Rightarrow> v)"
    by (cases voice) (simp_all add: resolve_voice_def v)
  show ?thesis
    using get_tts_voices [of b64decode self "text" speed instructions voice tr]
    unfolding a .
qed

theorem voice_of_call_witness:
  "OpenAITTSEngine_init sample_genai_Client ''key'' ''Kore'' ''gemini-2.5-flash-preview-tts''
     (0x3FF0000000000000 :: 64 word) None [] = (Inr (sample_engine client_ok), [])
   \<and> map request_voice (requests (trace_of
         (get_tts sample_b64decode (sample_engine client_ok) ''Hello'' None None
            (Some ''Puck'') []))) = [''Puck'']
   \<and> map request_voice (requests (trace_of
         (get_tts sample_b64decode (sample_engine client_ok) ''Hello'' None None
            None []))) = [''Kore'']"
proof -
  note t = voice_of_call [OF sample_init, of sample_b64decode "''Hello''" None None _ "[]"]
  from t [of "Some ''Puck''"] obtain k where
    k: "map request_voice (requests (trace_of
         (get_tts sample_b64decode (sample_engine client_ok) ''Hello'' None None
            (Some ''Puck'') []))) =
        map request_voice (requests ([] :: 64 word event list)) @
          replicate k (case Some ''Puck'' of None \<Rightarrow> ''Kore'' | Some v \<Rightarrow> v)"
    by (elim conjE exE)
  from t [of None] obtain j where
    j: "map request_voice (requests (trace_of
         (get_tts sample_b64decode (sample_engine client_ok) ''Hello'' None None
            None []))) =
        map request_voice (requests ([] :: 64 word event list)) @
          replicate j (case None of None \<Rightarrow> ''Kore'' | Some v \<Rightarrow> v)"
    by (elim conjE exE)
  have "length (map request_voice (requests (trace_of
         (get_tts sample_b64decode (sample_engine client_ok) ''Hello'' None None
            (Some ''Puck'') [])))) = 1"
    by (simp add: sample_ok_requests)
  then have k1: "k = 1"
    unfolding k by simp
  have "length (map request_voice (requests (trace_of
         (get_tts sample_b64decode (sample_engine client_ok) ''Hello'' None None
            None [])))) = 1"
    by (simp add: sample_ok_requests)
  then have j1: "j = 1"
    unfolding j by simp
  from k j k1 j1 sample_init show ?thesis
    by simp
qed

text \<open>
  Claim C9. \<open>get_tts\<close> leaves the engine as it is: after a call, with or without a
  voice of its own, the fields for the voice, the model, the key, the speed and the url
  hold what the constructor was given.
\<close>

theorem get_tts_keeps_engine:
  assumes "OpenAITTSEngine_init genai_Client api_key voice0 model0 speed0 url tr0 = (Inr self, tr0')"
  shows "engine_of (get_tts b64decode self text speed instructions voice tr) = self
     \<and> self_voice (engine_of (get_tts b64decode self text speed instructions voice tr)) = voice0
     \<and> self_model (engine_of (get_tts b64decode self text speed instructions voice tr)) = model0
     \<and> self_api_key (engine_of (get_tts b64decode self text speed instructions voice tr)) = api_key
     \<and> self_speed (engine_of (get_tts b64decode self text speed instructions voice tr)) = speed0
     \<and> self_url (engine_of (get_tts b64decode self text speed instructions voice tr)) = url"
  using init_fields [OF assms] by (simp add: get_tts_engine)

theorem get_tts_keeps_engine_witness:
  "OpenAITTSEngine_init sample_genai_Client ''key'' ''Kore'' ''gemini-2.5-flash-preview-tts''
     (0x3FF0000000000000 :: 64 word) None [] = (Inr (sample_engine client_ok), [])
   \<and> self_voice (engine_of
        (get_tts sample_b64decode (sample_engine client_ok) ''Hello'' None None
           (Some ''Puck'') [])) = ''Kore''
   \<and> self_model (engine_of
        (get_tts sample_b64decode (sample_engine client_ok) ''Hello'' None None
           (Some ''Puck'') [])) = ''gemini-2.5-flash-preview-tts''"
  using get_tts_keeps_engine [OF sample_init, of sample_b64decode "''Hello''" None None
      "Some ''Puck''" "[]"] sample_init
  by (elim conjE) (intro conjI)

subsection \<open>The speed\<close>

text \<open>
  Claim C7. A speed given to the call changes nothing but the log: two calls that differ
  only in the speed return the same result, leave the same engine and send the same
  requests with the same sleeps, and a call with a speed \<open>s\<close> has the trace of the
  call without one, with one record put in before the first request: the warning, at
  level WARNING, that a numeric speed is not supported, with \<open>s\<close> as its argument.
\<close>

theorem speed_only_warns:
  "result_of (get_tts b64decode self text speed instructions voice tr) =
     result_of (get_tts b64decode self text speed' instructions voice tr)
   \<and> engine_of (get_tts b64decode self text speed instructions voice tr) =
     engine_of (get_tts b64decode self text speed' instructions voice tr)
   \<and> requests (trace_of (get_tts b64decode self text speed instructions voice tr)) =
     requests (trace_of (get_tts b64decode self text speed' instructions voice tr))
   \<and> sleeps (trace_of (get_tts b64decode self text speed instructions voice tr)) =
     sleeps (trace_of (get_tts b64decode self text speed' instructions voice tr))
   \<and> trace_of (get_tts b64decode self text (Some s) instructions voice tr) =
       tr @ [Log WARNING
         ''Gemini TTS does not support a numeric 'speed' parameter; ignoring speed=%s''
         [ArgFloat s]] @
         drop (length tr) (trace_of (get_tts b64decode self text None instructions voice tr))
   \<and> take (length tr) (trace_of (get_tts b64decode self text None instructions voice tr)) = tr"
proof -
  obtain r e t where n: "get_tts b64decode self text None instructions voice tr = (r, e, t)"
    by (cases "get_tts b64decode self text None instructions voice tr")
  have g: "get_tts b64decode self text sp instructions voice tr =
            (r, e, warn_speed sp tr @ drop (length tr) t)" for sp
    using get_tts_speed [of b64decode self "text" sp instructions voice tr] by (simp add: n)
  have rq: "requests (warn_speed sp tr @ d) = requests tr @ requests d" for sp d
    by (simp add: requests_append requests_warn_speed)
  have sl: "sleeps (warn_speed sp tr @ d) = sleeps tr @ sleeps d" for sp d
    by (simp add: sleeps_append sleeps_warn_speed)
  have res: "result_of (get_tts b64decode self text speed instructions voice tr) =
     result_of (get_tts b64decode self text speed' instructions voice tr)"
    by (simp add: g result_of_def)
  have eng: "engine_of (get_tts b64decode self text speed instructions voice tr) =
     engine_of (get_tts b64decode self text speed' instructions voice tr)"
    by (simp add: g engine_of_def)
  have reqs: "requests (trace_of (get_tts b64decode self text speed instructions voice tr)) =
     requests (trace_of (get_tts b64decode self text speed' instructions voice tr))"
    by (simp add: g trace_of_def rq)
  have slps: "sleeps (trace_of (get_tts b64decode self text speed instructions voice tr)) =
     sleeps (trace_of (get_tts b64decode self text speed' instructions voice tr))"
    by (simp add: g trace_of_def sl)
  have w: "warn_speed (Some s) tr = tr @ [Log WARNING
         ''Gemini TTS does not support a numeric 'speed' parameter; ignoring speed=%s''
         [ArgFloat s]]"
      "warn_speed None tr = tr"
    by (simp_all add: warn_speed_def log_speed_ignored_def)
  have last: "trace_of (get_tts b64decode self text (Some s) instructions voice tr) =
       tr @ [Log WARNING
         ''Gemini TTS does not support a numeric 'speed' parameter; ignoring speed=%s''
         [ArgFloat s]] @
         drop (length tr) (trace_of (get_tts b64decode self text None instructions voice tr))"
    by (simp add: g trace_of_def w)
  note pre = get_tts_extends [of tr b64decode self "text" instructions voice]
  from res eng reqs slps last pre show ?thesis
    by (intro conjI)
qed

subsection \<open>The audio\<close>

text \<open>
  Claim C6. When the call succeeds, at the first attempt or at the second after a caught
  failure, on a response whose first part carries a string as inline data, the result is
  the audio object holding the bytes that \<open>base64.b64decode\<close> gives for that string.
\<close>

theorem get_tts_decodes:
  assumes "q = sent_request self text instructions voice"
    and "n = length (requests tr)"
    and "inline_audio response (PStr s)"
    and "b64decode (PStr s) = Inr audio_bytes"
    and "self_client self n q = Inr response
         \<or> (attempt_outcome b64decode (self_client self) n q = Inl exc \<and> is_Exception exc
            \<and> self_client self (n + 1) q = Inr response)"
  shows "result_of (get_tts b64decode self text speed instructions voice tr) =
           Inr (AudioResponse audio_bytes)
         \<and> content (AudioResponse audio_bytes) = audio_bytes"
proof -
  have rd: "read_response b64decode response = Inr (AudioResponse audio_bytes)"
    using read_response_inline_audio [OF assms(3), of b64decode] assms(4) by simp
  from assms(5) have "result_of (get_tts b64decode self text speed instructions voice tr) =
           Inr (AudioResponse audio_bytes)"
  proof
    assume "self_client self n q = Inr response"
    then have "attempt_outcome b64decode (self_client self) n q = Inr (AudioResponse audio_bytes)"
      by (simp add: attempt_outcome_def rd)
    then show ?thesis
      unfolding assms(1) assms(2) by (simp add: get_tts_unfold Let_def result_of_def)
  next
    assume a: "attempt_outcome b64decode (self_client self) n q = Inl exc \<and> is_Exception exc
            \<and> self_client self (n + 1) q = Inr response"
    then have "attempt_outcome b64decode (self_client self) (n + 1) q =
        Inr (AudioResponse audio_bytes)"
      by (simp add: attempt_outcome_def rd)
    with a show ?thesis
      unfolding assms(1) assms(2)
      by (simp add: get_tts_unfold Let_def result_of_def after_retry_def)
  qed
  then show ?thesis by simp
qed

theorem get_tts_decodes_witness:
  "inline_audio sample_response (PStr ''UklGRg=='')
   \<and> sample_b64decode (PStr ''UklGRg=='') = Inr [0x52, 0x49, 0x46, 0x46]
   \<and> self_client (sample_engine client_ok) 0
        (sent_request (sample_engine client_ok) ''Hello'' None None) = Inr sample_response
   \<and> result_of (get_tts sample_b64decode (sample_engine client_ok) ''Hello'' None None None []) =
        Inr (AudioResponse [0x52, 0x49, 0x46, 0x46])"
proof -
  have shape: "inline_audio sample_response (PStr ''UklGRg=='')"
    by (simp add: sample_response_def inline_audio.simps)
  have dec: "sample_b64decode (PStr ''UklGRg=='') = Inr [0x52, 0x49, 0x46, 0x46]"
    by (simp add: sample_b64decode_def b64_index_def)
  have c: "self_client (sample_engine client_ok) 0
        (sent_request (sample_engine client_ok) ''Hello'' None None) = Inr sample_response"
    by (simp add: sample_engine_def client_ok_def)
  have n: "0 = length (requests ([] :: 64 word event list))"
    by simp
  have "result_of (get_tts sample_b64decode (sample_engine client_ok) ''Hello'' None None None []) =
        Inr (AudioResponse [0x52, 0x49, 0x46, 0x46])
        \<and> content (AudioResponse [0x52, 0x49, 0x46, 0x46]) = [0x52, 0x49, 0x46, 0x46]"
    by (rule get_tts_decodes [where q = "sent_request (sample_engine client_ok) ''Hello'' None None"
          and n = 0 and response = sample_response and s = "''UklGRg==''"
          and exc = TypeError])
       (simp_all add: shape dec c)
  then have r: "result_of
      (get_tts sample_b64decode (sample_engine client_ok) ''Hello'' None None None []) =
        Inr (AudioResponse [0x52, 0x49, 0x46, 0x46])"
    by (rule conjunct1)
  from shape dec c r show ?thesis
    by (intro conjI)
qed

subsection \<open>The languages\<close>

text \<open>
  Claim C8. \<open>get_supported_langs\<close> returns the same list whatever happened before
  and touches nothing: 24 tags, in this order, each a language and a region, no tag twice.
  It is a static method, so no engine enters.
\<close>

theorem supported_langs_fixed:
  "get_supported_langs tr =
     ([''ar-EG'', ''de-DE'', ''en-US'', ''es-US'', ''fr-FR'', ''hi-IN'',
       ''id-ID'', ''it-IT'', ''ja-JP'', ''ko-KR'', ''nl-NL'', ''pl-PL'',
       ''pt-BR'', ''ru-RU'', ''th-TH'', ''tr-TR'', ''vi-VN'', ''ro-RO'',
       ''uk-UA'', ''bn-BD'', ''en-IN'', ''mr-IN'', ''ta-IN'', ''te-IN''], tr)
   \<and> fst (get_supported_langs tr) = fst (get_supported_langs tr')
   \<and> length (fst (get_supported_langs tr)) = 24
   \<and> list_all language_region_tag (fst (get_supported_langs tr))
   \<and> distinct (fst (get_supported_langs tr))"
proof -
  have tags: "list_all language_region_tag (fst (get_supported_langs tr))"
    by (simp add: get_supported_langs_def small_letter_def capital_letter_def)
  have d: "distinct (fst (get_supported_langs tr))"
    by (simp add: get_supported_langs_def)
  show ?thesis
    using tags d by (simp add: get_supported_langs_def)
qed

end
